theory Spec2Isabelle
  imports Complex_Main
begin

section \<open>Arc odometry of LemLib: \<^verbatim>\<open>src/lemlib/odom/arc.cpp\<close>\<close>

text \<open>
  The file embeds \<^verbatim>\<open>ArcOdom::calibrate\<close>, the two overloads of
  \<^verbatim>\<open>calcDeltaTheta\<close> and \<^verbatim>\<open>ArcOdom::update\<close>.

  Conventions of the embedding:
  \<^item> a C++ \<^verbatim>\<open>float\<close> is a \<^typ>\<open>real\<close>: rounding is not modelled, but for the
    heading delta of a cycle, which the subsection on single precision gives again with
    every operation rounded. A float division
    whose divisor is zero has no real value (IEEE gives an infinity or a NaN), so every
    division by a variable goes through \<open>fdiv\<close>, and a function that performs one with
    a zero divisor ends in the fault \<open>DivisionByZero\<close>;
  \<^item> a \<^verbatim>\<open>std::vector\<close> is a list and an iterator into it is an index. After
    \<^verbatim>\<open>erase(it)\<close> the iterator still addresses the same slot, as it does for the
    pointer-based iterators of the standard libraries; an iterator that has moved beyond
    \<^verbatim>\<open>end()\<close> is dereferenced out of bounds, which is the fault \<open>IteratorPastEnd\<close>;
  \<^item> the logger \<^verbatim>\<open>infoSink()\<close> is the list \<open>sink\<close> of the messages written so far
    and the clock \<^verbatim>\<open>pros::millis()\<close> is the counter \<open>millis\<close>.
\<close>

subsection \<open>Faults and log messages\<close>

datatype fault = DivisionByZero | IteratorPastEnd

datatype level = WARN | ERROR

datatype message =
    VerticalFailedCalibration real
  | HorizontalFailedCalibration real
  | ImuFailedCalibration nat
  | NotEnoughSensors
  | NoVerticalWheels

type_synonym logline = "level \<times> message"

definition fdiv :: "real \<Rightarrow> real \<Rightarrow> real option" where
  "fdiv a b = (if b = 0 then None else Some (a / b))"

subsection \<open>Pose\<close>

text \<open>
  The fields \<^verbatim>\<open>x\<close>, \<^verbatim>\<open>y\<close>, \<^verbatim>\<open>theta\<close> of \<^verbatim>\<open>lemlib::Pose\<close> carry the prefix
  \<open>pose_\<close> here.
\<close>

record Pose =
  pose_x :: real
  pose_y :: real
  pose_theta :: real

text \<open>
  Modelled from the spec: \<^verbatim>\<open>Pose::rotate\<close> and \<^verbatim>\<open>Pose::operator+=\<close> are declared in
  \<^verbatim>\<open>lemlib/pose.hpp\<close>, which is not among the sources. The spec (4.1) gives them:
  rotation turns the vector (x, y) counter-clockwise by the angle and leaves the heading,
  addition is the component-wise sum.
\<close>

definition rotate :: "Pose \<Rightarrow> real \<Rightarrow> Pose" where
  "rotate p angle =
     \<lparr> pose_x = pose_x p * cos angle - pose_y p * sin angle,
       pose_y = pose_x p * sin angle + pose_y p * cos angle,
       pose_theta = pose_theta p \<rparr>"

definition pose_add :: "Pose \<Rightarrow> Pose \<Rightarrow> Pose" where
  "pose_add p q =
     \<lparr> pose_x = pose_x p + pose_x q,
       pose_y = pose_y p + pose_y q,
       pose_theta = pose_theta p + pose_theta q \<rparr>"

subsection \<open>Tracking wheels\<close>

text \<open>
  Modelled from the spec: \<^verbatim>\<open>TrackingWheel\<close> is declared outside the sources. The spec
  (3, LinearSensor) gives a fixed \<open>offset\<close> and a cumulative distance;
  \<^verbatim>\<open>getDistanceDelta(update)\<close> returns the distance travelled since the last consuming
  read and advances the marker \<open>lastDistance\<close> only when \<open>update\<close> is true (the
  default argument of the source). \<^verbatim>\<open>reset()\<close> returns true when it FAILS, as the
  warning of the caller says; \<open>resetFails\<close> is what the hardware will answer. That
  \<^verbatim>\<open>reset()\<close> zeroes the readings is a choice of the model; the spec fixes only that
  the offset is never changed.
\<close>

record TrackingWheel =
  offset :: real
  distance :: real
  lastDistance :: real
  resetFails :: bool

definition getOffset :: "TrackingWheel \<Rightarrow> real" where
  "getOffset t = offset t"

definition getDistanceDelta :: "bool \<Rightarrow> TrackingWheel \<Rightarrow> real \<times> TrackingWheel" where
  "getDistanceDelta update t =
     (distance t - lastDistance t,
      if update then t\<lparr>lastDistance := distance t\<rparr> else t)"

definition reset :: "TrackingWheel \<Rightarrow> bool \<times> TrackingWheel" where
  "reset t = (resetFails t, t\<lparr>distance := 0, lastDistance := 0\<rparr>)"

subsection \<open>Gyros\<close>

text \<open>
  \<^verbatim>\<open>Gyro\<close> is an abstract class whose implementations are outside the sources, so
  a gyro is a value of any type \<open>'g\<close> and its virtual methods are the fields of the
  record \<open>'g Gyro\<close>, a parameter of every function that calls one. Each method takes
  the object and returns the changed object where it can change it.
  \<open>gyro_elapse ms\<close> is what the hardware does to the object while the calling thread
  sleeps for \<open>ms\<close> milliseconds (the calibration started by \<^verbatim>\<open>calibrate()\<close> runs
  in the background). The vector holds shared pointers; they are taken to point to
  distinct objects.
\<close>

record 'g Gyro =
  gyro_calibrate :: "'g \<Rightarrow> 'g"
  gyro_isCalibrating :: "'g \<Rightarrow> bool"
  gyro_isCalibrated :: "'g \<Rightarrow> bool"
  gyro_getRotationDelta :: "'g \<Rightarrow> real \<times> 'g"
  gyro_getPort :: "'g \<Rightarrow> nat"
  gyro_elapse :: "nat \<Rightarrow> 'g \<Rightarrow> 'g"

subsection \<open>The estimator\<close>

record 'g ArcOdom =
  verticals :: "TrackingWheel list"
  horizontals :: "TrackingWheel list"
  gyros :: "'g list"
  pose :: Pose
  sink :: "logline list"
  millis :: nat

subsection \<open>Timer and delay\<close>

text \<open>
  Modelled from the spec: \<^verbatim>\<open>lemlib/timer.hpp\<close> and \<^verbatim>\<open>pros::delay\<close> are outside the
  sources. A timer of a period is done once that many milliseconds have passed since its
  construction; \<^verbatim>\<open>pros::delay(ms)\<close> advances the clock by \<open>ms\<close> and lets the gyro
  hardware run for that long. All other statements take no time.
\<close>

record Timer =
  period :: nat
  startTime :: nat

definition newTimer :: "nat \<Rightarrow> 'g ArcOdom \<Rightarrow> Timer" where
  "newTimer p st = \<lparr> period = p, startTime = millis st \<rparr>"

definition isDone :: "Timer \<Rightarrow> 'g ArcOdom \<Rightarrow> bool" where
  "isDone tm st = (period tm \<le> millis st - startTime tm)"

definition delay :: "'g Gyro \<Rightarrow> nat \<Rightarrow> 'g ArcOdom \<Rightarrow> 'g ArcOdom" where
  "delay G ms st =
     st\<lparr> millis := millis st + ms, gyros := map (gyro_elapse G ms) (gyros st) \<rparr>"

subsection \<open>\<^verbatim>\<open>ArcOdom::calibrate\<close>\<close>

text \<open>
  The three removal loops of \<^verbatim>\<open>calibrate\<close> (lines 32-37, 40-45 and 59-64) have one
  shape:
  \<^verbatim>\<open>for (auto it = v.begin(); it != v.end(); it++) if (test(*it)) { warn(msg(*it)); v.erase(it); }\<close>
  \<open>eraseLoop test msg i v lg\<close> runs it from the iterator position \<open>i\<close>. The test may
  change the element (\<^verbatim>\<open>reset()\<close> does). After \<^verbatim>\<open>erase\<close> the elements behind slot
  \<open>i\<close> have moved down by one and \<^verbatim>\<open>it++\<close> still follows.
\<close>

definition erase :: "nat \<Rightarrow> 'a list \<Rightarrow> 'a list" where
  "erase i v = take i v @ drop (Suc i) v"

function eraseLoop ::
  "('a \<Rightarrow> bool \<times> 'a) \<Rightarrow> ('a \<Rightarrow> message) \<Rightarrow> nat \<Rightarrow> 'a list \<Rightarrow> logline list
     \<Rightarrow> fault + ('a list \<times> logline list)" where
  "eraseLoop test msg i v lg =
     (if i = length v then Inr (v, lg)
      else if length v < i then Inl IteratorPastEnd
      else (case test (v ! i) of
              (failed, e) \<Rightarrow>
                if failed
                then eraseLoop test msg (Suc i) (erase i (v[i := e])) (lg @ [(WARN, msg e)])
                else eraseLoop test msg (Suc i) (v[i := e]) lg))"
  by pat_completeness auto
termination
  by (relation "measure (\<lambda>(test, msg, i, v, lg). Suc (length v) - i)")
     (auto simp: erase_def)

declare eraseLoop.simps [simp del]

text \<open>The polling loop of lines 51-56.\<close>

definition recalibrate :: "'g Gyro \<Rightarrow> 'g \<Rightarrow> 'g" where
  "recalibrate G g =
     (if \<not> gyro_isCalibrating G g \<and> \<not> gyro_isCalibrated G g then gyro_calibrate G g else g)"

function pollGyros :: "'g Gyro \<Rightarrow> Timer \<Rightarrow> 'g ArcOdom \<Rightarrow> 'g ArcOdom" where
  "pollGyros G tm st =
     (if isDone tm st then st
      else pollGyros G tm (delay G 10 (st\<lparr>gyros := map (recalibrate G) (gyros st)\<rparr>)))"
  by pat_completeness auto
termination
  by (relation "measure (\<lambda>(G, tm, st). startTime tm + period tm - millis st)")
     (auto simp: isDone_def delay_def)

declare pollGyros.simps [simp del]

definition calibrate :: "'g Gyro \<Rightarrow> bool \<Rightarrow> 'g ArcOdom \<Rightarrow> fault + 'g ArcOdom" where
  "calibrate G calibrateGyros st =
     (case eraseLoop reset (\<lambda>t. VerticalFailedCalibration (getOffset t)) 0
             (verticals st) (sink st) of
        Inl f \<Rightarrow> Inl f
      | Inr (vs, lg1) \<Rightarrow>
     (case eraseLoop reset (\<lambda>t. HorizontalFailedCalibration (getOffset t)) 0
             (horizontals st) lg1 of
        Inl f \<Rightarrow> Inl f
      | Inr (hs, lg2) \<Rightarrow>
          let st1 = st\<lparr>verticals := vs, horizontals := hs, sink := lg2\<rparr> in
          if calibrateGyros
          then let st2 = st1\<lparr>gyros := map (gyro_calibrate G) (gyros st1)\<rparr>;
                   timer = newTimer 3000 st2;
                   st3 = pollGyros G timer st2
               in (case eraseLoop (\<lambda>g. (\<not> gyro_isCalibrated G g, g))
                           (\<lambda>g. ImuFailedCalibration (gyro_getPort G g)) 0
                           (gyros st3) (sink st3) of
                     Inl f \<Rightarrow> Inl f
                   | Inr (gs, lg3) \<Rightarrow> Inr (st3\<lparr>gyros := gs, sink := lg3\<rparr>))
          else Inr st1))"

subsection \<open>\<^verbatim>\<open>calcDeltaTheta\<close>\<close>

text \<open>
  Lines 77-81. The wheels are passed by reference, so the model returns them with the
  result. The quotient is \<open>None\<close> when the two offsets are equal.
\<close>

definition calcDeltaTheta ::
  "TrackingWheel \<Rightarrow> TrackingWheel \<Rightarrow> real option \<times> TrackingWheel \<times> TrackingWheel" where
  "calcDeltaTheta tracker1 tracker2 =
     (case getDistanceDelta False tracker1 of (d1, t1) \<Rightarrow>
      case getDistanceDelta False tracker2 of (d2, t2) \<Rightarrow>
        let numerator = d1 - d2;
            denominator = getOffset t1 - getOffset t2
        in (fdiv numerator denominator, t1, t2))"

text \<open>
  Lines 91-95: \<open>gyroLoop\<close> is the range-for with the accumulator \<open>deltaTheta\<close>, and
  \<open>n\<close> is \<^verbatim>\<open>gyros.size()\<close>.
\<close>

fun gyroLoop :: "'g Gyro \<Rightarrow> nat \<Rightarrow> 'g list \<Rightarrow> real \<Rightarrow> (real \<times> 'g list) option" where
  "gyroLoop G n [] deltaTheta = Some (deltaTheta, [])"
| "gyroLoop G n (g # gs) deltaTheta =
     (case gyro_getRotationDelta G g of (d, g') \<Rightarrow>
      case fdiv d (real n) of
        None \<Rightarrow> None
      | Some q \<Rightarrow>
          (case gyroLoop G n gs (deltaTheta + q) of
             None \<Rightarrow> None
           | Some (r, gs') \<Rightarrow> Some (r, g' # gs')))"

definition calcDeltaTheta_gyros :: "'g Gyro \<Rightarrow> 'g list \<Rightarrow> (real \<times> 'g list) option" where
  "calcDeltaTheta_gyros G gs = gyroLoop G (length gs) gs 0"

subsection \<open>\<^verbatim>\<open>ArcOdom::update\<close>\<close>

text \<open>
  Lines 116-126, the choice of the heading source. The result is the new \<open>theta\<close>
  with the state after the sensor reads, \<open>None\<close> when no source is available (the
  branch that logs and returns), or a fault.
\<close>

definition resolveTheta :: "'g Gyro \<Rightarrow> 'g ArcOdom \<Rightarrow> fault + (real \<times> 'g ArcOdom) option" where
  "resolveTheta G st =
     (let theta = pose_theta (pose st) in
      if length (gyros st) > 0
      then (case calcDeltaTheta_gyros G (gyros st) of
              None \<Rightarrow> Inl DivisionByZero
            | Some (d, gs) \<Rightarrow> Inr (Some (theta + d, st\<lparr>gyros := gs\<rparr>)))
      else if length (horizontals st) > 1
      then (case calcDeltaTheta (horizontals st ! 0) (horizontals st ! 1) of
              (None, t1, t2) \<Rightarrow> Inl DivisionByZero
            | (Some d, t1, t2) \<Rightarrow>
                Inr (Some (theta + d, st\<lparr>horizontals := (horizontals st)[0 := t1, 1 := t2]\<rparr>)))
      else if length (verticals st) > 1
      then (case calcDeltaTheta (verticals st ! 0) (verticals st ! 1) of
              (None, t1, t2) \<Rightarrow> Inl DivisionByZero
            | (Some d, t1, t2) \<Rightarrow>
                Inr (Some (theta + d, st\<lparr>verticals := (verticals st)[0 := t1, 1 := t2]\<rparr>)))
      else Inr None)"

text \<open>
  The body of the two loops of lines 135-147, which differ only in the vector they walk
  and the coordinate they add to: \<open>count\<close> is the divisor the source writes in the loop and
  \<open>acc\<close> the coordinate of \<open>local\<close>.
\<close>

fun trackerLoop ::
  "real \<Rightarrow> real \<Rightarrow> nat \<Rightarrow> TrackingWheel list \<Rightarrow> real \<Rightarrow> (real \<times> TrackingWheel list) option" where
  "trackerLoop deltaTheta sinDTheta2 count [] acc = Some (acc, [])"
| "trackerLoop deltaTheta sinDTheta2 count (tracker # ts) acc =
     (case getDistanceDelta True tracker of (d, t') \<Rightarrow>
      case (if deltaTheta = 0 then Some d
            else map_option (\<lambda>q. q + getOffset t') (fdiv d deltaTheta)) of
        None \<Rightarrow> None
      | Some radius \<Rightarrow>
          (case fdiv (sinDTheta2 * radius) (real count) of
             None \<Rightarrow> None
           | Some c \<Rightarrow>
               (case trackerLoop deltaTheta sinDTheta2 count ts (acc + c) of
                  None \<Rightarrow> None
                | Some (r, ts') \<Rightarrow> Some (r, t' # ts'))))"

text \<open>
  \<^verbatim>\<open>update\<close>. Both loops divide by \<^verbatim>\<open>horizontals.size()\<close>, as lines 139 and 146 do.
\<close>

definition update :: "'g Gyro \<Rightarrow> 'g ArcOdom \<Rightarrow> fault + 'g ArcOdom" where
  "update G st =
     (case resolveTheta G st of
        Inl f \<Rightarrow> Inl f
      | Inr None \<Rightarrow> Inr (st\<lparr>sink := sink st @ [(ERROR, NotEnoughSensors)]\<rparr>)
      | Inr (Some (theta, st1)) \<Rightarrow>
          let deltaTheta = theta - pose_theta (pose st1);
              avgTheta = pose_theta (pose st1) + deltaTheta / 2;
              sinDTheta2 = (if deltaTheta = 0 then 1 else 2 * sin (deltaTheta / 2))
          in (case trackerLoop deltaTheta sinDTheta2 (length (horizontals st1))
                      (horizontals st1) 0 of
                None \<Rightarrow> Inl DivisionByZero
              | Some (local_x, hs) \<Rightarrow>
             (case trackerLoop deltaTheta sinDTheta2 (length (horizontals st1))
                      (verticals st1) 0 of
                None \<Rightarrow> Inl DivisionByZero
              | Some (local_y, vs) \<Rightarrow>
                  let local = \<lparr> pose_x = local_x, pose_y = local_y, pose_theta = deltaTheta \<rparr>;
                      lg = (if verticals st1 = [] then sink st1 @ [(WARN, NoVerticalWheels)]
                            else sink st1)
                  in Inr (st1\<lparr> horizontals := hs, verticals := vs, sink := lg,
                               pose := pose_add (pose st1) (rotate local avgTheta) \<rparr>))))"

subsection \<open>A simulated inertial sensor\<close>

text \<open>
  One implementation of the abstract class, used to run the functions on concrete
  states: a sensor on a port that holds a pending rotation delta. A connected sensor
  starts a calibration of \<open>imu_calTime\<close> milliseconds on every \<^verbatim>\<open>calibrate()\<close>; on a
  disconnected one the call has no effect.
\<close>

datatype imu_status = Idle | Calibrating nat | Calibrated

record Imu =
  imu_port :: nat
  imu_pending :: real
  imu_status :: imu_status
  imu_connected :: bool
  imu_calTime :: nat

definition imu_elapse :: "nat \<Rightarrow> Imu \<Rightarrow> Imu" where
  "imu_elapse ms g =
     (case imu_status g of
        Calibrating r \<Rightarrow>
          if r \<le> ms then g\<lparr>imu_status := Calibrated\<rparr>
          else g\<lparr>imu_status := Calibrating (r - ms)\<rparr>
      | _ \<Rightarrow> g)"

definition imu :: "Imu Gyro" where
  "imu =
     \<lparr> gyro_calibrate =
         (\<lambda>g. if imu_connected g then g\<lparr>imu_status := Calibrating (imu_calTime g)\<rparr> else g),
       gyro_isCalibrating = (\<lambda>g. case imu_status g of Calibrating r \<Rightarrow> True | _ \<Rightarrow> False),
       gyro_isCalibrated = (\<lambda>g. imu_status g = Calibrated),
       gyro_getRotationDelta = (\<lambda>g. (imu_pending g, g\<lparr>imu_pending := 0\<rparr>)),
       gyro_getPort = imu_port,
       gyro_elapse = imu_elapse \<rparr>"

definition origin :: Pose where
  "origin = \<lparr> pose_x = 0, pose_y = 0, pose_theta = 0 \<rparr>"

text \<open>A wheel at an offset that has travelled a distance since the last consuming read.\<close>

definition wheel :: "real \<Rightarrow> real \<Rightarrow> TrackingWheel" where
  "wheel off d = \<lparr> offset = off, distance = d, lastDistance = 0, resetFails = False \<rparr>"

definition brokenWheel :: "real \<Rightarrow> TrackingWheel" where
  "brokenWheel off = \<lparr> offset = off, distance = 0, lastDistance = 0, resetFails = True \<rparr>"

text \<open>A calibrated sensor with a pending rotation, and one that is unplugged.\<close>

definition readyImu :: "nat \<Rightarrow> real \<Rightarrow> Imu" where
  "readyImu p d =
     \<lparr> imu_port = p, imu_pending = d, imu_status = Calibrated, imu_connected = True,
       imu_calTime = 10 \<rparr>"

definition unpluggedImu :: "nat \<Rightarrow> Imu" where
  "unpluggedImu p =
     \<lparr> imu_port = p, imu_pending = 0, imu_status = Idle, imu_connected = False,
       imu_calTime = 10 \<rparr>"

definition robot :: "TrackingWheel list \<Rightarrow> TrackingWheel list \<Rightarrow> Imu list \<Rightarrow> Imu ArcOdom" where
  "robot vs hs gs =
     \<lparr> verticals = vs, horizontals = hs, gyros = gs, pose = origin, sink = [], millis = 0 \<rparr>"

text \<open>The wheel after a consuming read.\<close>

definition consumed :: "TrackingWheel \<Rightarrow> TrackingWheel" where
  "consumed t = snd (getDistanceDelta True t)"

subsection \<open>Single precision\<close>







section \<open>Properties\<close>

subsection \<open>Auxiliary facts\<close>


lemma same_wheels [simp]:
  "st\<lparr>horizontals := horizontals st\<rparr> = st" "st\<lparr>verticals := verticals st\<rparr> = st"
  by simp_all

lemma resolveTheta_keeps:
  assumes "resolveTheta G st = Inr (Some (theta, st1))"
  shows "pose st1 = pose st" and "sink st1 = sink st" and "millis st1 = millis st"
  using assms
  by (auto simp: resolveTheta_def Let_def split: if_splits option.splits prod.splits)

lemma update_success:
  assumes "resolveTheta G st = Inr (Some (theta, st1))"
    and "trackerLoop (theta - pose_theta (pose st1))
           (if theta - pose_theta (pose st1) = 0 then 1
            else 2 * sin ((theta - pose_theta (pose st1)) / 2))
           (length (horizontals st1)) (horizontals st1) 0 = Some (lx, hs)"
    and "trackerLoop (theta - pose_theta (pose st1))
           (if theta - pose_theta (pose st1) = 0 then 1
            else 2 * sin ((theta - pose_theta (pose st1)) / 2))
           (length (horizontals st1)) (verticals st1) 0 = Some (ly, vs)"
  shows "update G st =
     Inr (st1\<lparr> horizontals := hs, verticals := vs,
               sink := (if verticals st1 = [] then sink st1 @ [(WARN, NoVerticalWheels)]
                        else sink st1),
               pose := pose_add (pose st1)
                 (rotate \<lparr> pose_x = lx, pose_y = ly,
                           pose_theta = theta - pose_theta (pose st1) \<rparr>
                    (pose_theta (pose st1) + (theta - pose_theta (pose st1)) / 2)) \<rparr>)"
  unfolding update_def Let_def using assms
  by (simp only: sum.case option.case prod.case)

text \<open>
  The polling loop on a timer that has not expired, with a whole number of 10 ms steps
  left: it returns exactly at the deadline.
\<close>

lemma pollGyros_millis:
  "startTime tm \<le> millis st \<Longrightarrow> 10 dvd (startTime tm + period tm - millis st)
   \<Longrightarrow> millis st \<le> startTime tm + period tm
   \<Longrightarrow> millis (pollGyros G tm st) = startTime tm + period tm"
proof (induction G tm st rule: pollGyros.induct)
  case (1 G tm st)
  show ?case
  proof (cases "isDone tm st")
    case True
    with "1.prems" show ?thesis by (subst pollGyros.simps) (simp add: isDone_def)
  next
    case False
    let ?st = "delay G 10 (st\<lparr>gyros := map (recalibrate G) (gyros st)\<rparr>)"
    let ?D = "startTime tm + period tm - millis st"
    have m: "millis ?st = millis st + 10" by (simp add: delay_def)
    from False "1.prems" have pos: "0 < ?D" by (simp add: isDone_def)
    with "1.prems"(2) have ten: "10 \<le> ?D" by (simp add: dvd_imp_le)
    then have ge: "millis st + 10 \<le> startTime tm + period tm" by arith
    have "10 dvd (?D - 10)" by (rule dvd_diff_nat [OF "1.prems"(2)]) simp
    then have dv: "10 dvd (startTime tm + period tm - (millis st + 10))"
      by (simp only: diff_diff_left)
    have "millis (pollGyros G tm ?st) = startTime tm + period tm"
      using "1.IH"[OF False] "1.prems"(1) ge dv by (simp add: m)
    with False show ?thesis by (subst pollGyros.simps) simp
  qed
qed

lemma pollGyros_budget: "millis (pollGyros G (newTimer 3000 st) st) = millis st + 3000"
  using pollGyros_millis [of "newTimer 3000 st" st G] by (simp add: newTimer_def)

text \<open>
  Gyros on which neither the retry nor the passing of 10 ms has an effect come out of
  the polling loop as they went in.
\<close>

lemma pollGyros_idle:
  "\<forall>g\<in>set (gyros st). recalibrate G g = g \<and> gyro_elapse G 10 g = g
   \<Longrightarrow> startTime tm \<le> millis st \<Longrightarrow> 10 dvd (startTime tm + period tm - millis st)
   \<Longrightarrow> millis st \<le> startTime tm + period tm
   \<Longrightarrow> pollGyros G tm st = st\<lparr>millis := startTime tm + period tm\<rparr>"
proof (induction G tm st rule: pollGyros.induct)
  case (1 G tm st)
  show ?case
  proof (cases "isDone tm st")
    case True
    with "1.prems" show ?thesis by (subst pollGyros.simps) (simp add: isDone_def)
  next
    case False
    let ?st = "delay G 10 (st\<lparr>gyros := map (recalibrate G) (gyros st)\<rparr>)"
    let ?D = "startTime tm + period tm - millis st"
    have same: "map (gyro_elapse G 10) (map (recalibrate G) (gyros st)) = gyros st"
      using "1.prems"(1) by (simp add: map_idI)
    then have st: "?st = st\<lparr>millis := millis st + 10\<rparr>" by (simp add: delay_def)
    from False "1.prems" have pos: "0 < ?D" by (simp add: isDone_def)
    with "1.prems"(3) have ten: "10 \<le> ?D" by (simp add: dvd_imp_le)
    then have ge: "millis st + 10 \<le> startTime tm + period tm" by arith
    have "10 dvd (?D - 10)" by (rule dvd_diff_nat [OF "1.prems"(3)]) simp
    then have dv: "10 dvd (startTime tm + period tm - (millis st + 10))"
      by (simp only: diff_diff_left)
    have "pollGyros G tm ?st = ?st\<lparr>millis := startTime tm + period tm\<rparr>"
      using "1.IH"[OF False] "1.prems"(1,2) ge dv by (simp add: st)
    with False show ?thesis by (subst pollGyros.simps) (simp add: st)
  qed
qed






lemmas sim_defs =
  robot_def origin_def wheel_def brokenWheel_def readyImu_def unpluggedImu_def imu_def
  imu_elapse_def consumed_def

lemmas wheel_defs = getDistanceDelta_def getOffset_def reset_def fdiv_def

subsection \<open>Calibration of the tracking wheels\<close>

text \<open>
  Claim C1: after \<^verbatim>\<open>calibrate()\<close> the active wheels are exactly those whose
  \<^verbatim>\<open>reset()\<close> did not report failure, none being skipped by the removal during the
  iteration. The source fails this on two failing wheels in a row: erasing the first
  moves the second into the slot of the iterator, and the increment of the loop steps
  over it. The second wheel is never reset and stays in the collection; only the first
  is warned about.
\<close>

theorem calibrate_skips_wheel_behind_erased:
  "calibrate imu False (robot [brokenWheel 1, brokenWheel (- 1)] [] []) =
     Inr (robot [brokenWheel (- 1)] [] [] \<lparr>sink := [(WARN, VerticalFailedCalibration 1)]\<rparr>)"
  by (simp add: calibrate_def eraseLoop.simps erase_def sim_defs wheel_defs)

subsection \<open>Local displacement\<close>

text \<open>
  Claim C2: each local axis is the average of the contributions of its own group, every
  contribution being divided by the number of sensors of the group it belongs to. The
  source divides the contributions of the vertical wheels by the number of horizontal
  wheels: with one horizontal wheel and two vertical wheels that each moved by 2 on a
  straight line, local y is 2 / 1 + 2 / 1 = 4 and not the average 2.
\<close>

theorem update_vertical_sum_over_horizontal_count:
  "update imu (robot [wheel 1 2, wheel (- 1) 2] [wheel 0 1] [readyImu 1 0]) =
     Inr (robot [consumed (wheel 1 2), consumed (wheel (- 1) 2)] [consumed (wheel 0 1)]
                [readyImu 1 0]
            \<lparr>pose := \<lparr> pose_x = 1, pose_y = 4, pose_theta = 0 \<rparr>\<rparr>)"
  by (simp add: update_def resolveTheta_def calcDeltaTheta_gyros_def pose_add_def rotate_def
        sim_defs wheel_defs)

subsection \<open>Insufficient sensors\<close>

text \<open>
  Claim C3: with no gyro and fewer than two wheels in each group, \<^verbatim>\<open>update()\<close> logs
  the error and returns; the state, and with it the pose, is what it was, but for the
  logged line.
\<close>

theorem update_insufficient_sensors:
  assumes "gyros st = []" and "length (horizontals st) < 2" and "length (verticals st) < 2"
  shows "update G st = Inr (st\<lparr>sink := sink st @ [(ERROR, NotEnoughSensors)]\<rparr>)
         \<and> (\<forall>st'. update G st = Inr st' \<longrightarrow> pose st' = pose st)"
  using assms by (simp add: update_def resolveTheta_def)

theorem update_insufficient_sensors_witness:
  "gyros (robot [wheel 1 3] [wheel 2 5] []) = []
   \<and> length (horizontals (robot [wheel 1 3] [wheel 2 5] [])) < 2
   \<and> length (verticals (robot [wheel 1 3] [wheel 2 5] [])) < 2
   \<and> update imu (robot [wheel 1 3] [wheel 2 5] []) =
       Inr (robot [wheel 1 3] [wheel 2 5] [] \<lparr>sink := [(ERROR, NotEnoughSensors)]\<rparr>)
   \<and> pose (robot [wheel 1 3] [wheel 2 5] [] \<lparr>sink := [(ERROR, NotEnoughSensors)]\<rparr>) = origin"
proof -
  let ?S = "robot [wheel 1 3] [wheel 2 5] []"
  have g: "gyros ?S = []" and h: "length (horizontals ?S) < 2"
    and v: "length (verticals ?S) < 2"
    by (simp_all add: robot_def)
  from update_insufficient_sensors [OF g h v, of imu] g h v show ?thesis
    by (simp add: robot_def)
qed

subsection \<open>The source of the heading\<close>




subsection \<open>Calibration of the gyros\<close>

text \<open>
  Claim C5: with the calibration of the gyros requested, every gyro is issued
  \<^verbatim>\<open>calibrate()\<close>, idle ones are retried every 10 ms for 3000 ms, and then exactly the
  gyros that are not calibrated are warned about and removed. The source fails the last
  part on two uncalibrated gyros in a row, as its wheel loops do: of two unplugged
  sensors on ports 1 and 2 only the first is warned about and removed, and the second
  stays in the collection.
\<close>

theorem calibrate_skips_gyro_behind_erased:
  "calibrate imu True (robot [] [] [unpluggedImu 1, unpluggedImu 2]) =
     Inr (robot [] [] [unpluggedImu 2]
            \<lparr>millis := 3000, sink := [(WARN, ImuFailedCalibration 1)]\<rparr>)"
proof -
  let ?S = "robot [] [] [unpluggedImu 1, unpluggedImu 2]"
  have "pollGyros imu (newTimer 3000 ?S) ?S = ?S\<lparr>millis := 3000\<rparr>"
    by (subst pollGyros_idle) (simp_all add: newTimer_def recalibrate_def sim_defs)
  then show ?thesis
    by (simp add: calibrate_def Let_def newTimer_def eraseLoop.simps erase_def sim_defs)
qed

subsection \<open>Heading from two wheels\<close>

text \<open>
  Claim C6: for two wheels at different offsets the heading delta is the difference of
  their distance deltas over the difference of their offsets, and the reads do not
  consume the deltas: both wheels come back as they were, markers included, so the
  consuming read that follows still sees the same distance.
\<close>

theorem calcDeltaTheta_two_wheels:
  assumes "offset S1 \<noteq> offset S2"
  shows "calcDeltaTheta S1 S2 =
           (Some (((distance S1 - lastDistance S1) - (distance S2 - lastDistance S2))
                  / (offset S1 - offset S2)), S1, S2)
         \<and> fst (getDistanceDelta True S1) = distance S1 - lastDistance S1
         \<and> fst (getDistanceDelta True S2) = distance S2 - lastDistance S2"
  using assms by (simp add: calcDeltaTheta_def wheel_defs)

theorem calcDeltaTheta_two_wheels_witness:
  "offset (wheel 1 5) \<noteq> offset (wheel (- 1) 1)
   \<and> calcDeltaTheta (wheel 1 5) (wheel (- 1) 1) = (Some 2, wheel 1 5, wheel (- 1) 1)"
proof -
  have ne: "offset (wheel 1 5) \<noteq> offset (wheel (- 1) 1)" by (simp add: wheel_def)
  from calcDeltaTheta_two_wheels [OF ne] ne show ?thesis by (simp add: wheel_def)
qed

subsection \<open>The new pose\<close>

text \<open>
  Claim C7: in a cycle whose heading resolves to \<open>theta\<close>, with the heading delta
  \<open>deltaTheta\<close> (line 127), the chord factor \<open>sinDTheta2\<close> (line 133) and the local
  coordinates that the two loops accumulate, the new pose is the old pose plus the
  local displacement rotated by the old heading plus half the delta; the stored heading
  grows by the delta.
\<close>

theorem update_rotates_by_midpoint_heading:
  assumes res: "resolveTheta G st = Inr (Some (theta, st1))"
    and d: "deltaTheta = theta - pose_theta (pose st)"
    and s: "sinDTheta2 = (if deltaTheta = 0 then 1 else 2 * sin (deltaTheta / 2))"
    and h: "trackerLoop deltaTheta sinDTheta2 (length (horizontals st1)) (horizontals st1) 0
              = Some (localX, hs)"
    and v: "trackerLoop deltaTheta sinDTheta2 (length (horizontals st1)) (verticals st1) 0
              = Some (localY, vs)"
  shows "\<exists>st'. update G st = Inr st'
           \<and> pose st' = pose_add (pose st)
                 (rotate \<lparr> pose_x = localX, pose_y = localY, pose_theta = deltaTheta \<rparr>
                         (pose_theta (pose st) + deltaTheta / 2))
           \<and> pose_theta (pose st') = pose_theta (pose st) + deltaTheta"
proof -
  have p: "pose st = pose st1" using res by (simp add: resolveTheta_keeps)
  note u = update_success [OF res h [unfolded s d p] v [unfolded s d p]]
  show ?thesis
    unfolding d p u by (simp add: pose_add_def rotate_def)
qed

text \<open>
  A half turn from the origin: the gyro reports \<open>pi\<close>, the chord factor is 2, the
  horizontal wheel gives the local x = 2 and the vertical wheel the local y = 4. The
  displacement (2, 4) is rotated by \<open>pi / 2\<close> to (- 4, 2); the start heading 0 would
  give (2, 4) and the end heading \<open>pi\<close> would give (- 2, - 4).
\<close>

theorem update_rotates_by_midpoint_heading_witness:
  "resolveTheta imu (robot [wheel 0 (2 * pi)] [wheel 0 pi] [readyImu 1 pi]) =
     Inr (Some (pi, robot [wheel 0 (2 * pi)] [wheel 0 pi] [readyImu 1 0]))
   \<and> trackerLoop pi 2 1 [wheel 0 pi] 0 = Some (2, [consumed (wheel 0 pi)])
   \<and> trackerLoop pi 2 1 [wheel 0 (2 * pi)] 0 = Some (4, [consumed (wheel 0 (2 * pi))])
   \<and> (\<exists>st'. update imu (robot [wheel 0 (2 * pi)] [wheel 0 pi] [readyImu 1 pi]) = Inr st'
         \<and> pose st' = \<lparr> pose_x = - 4, pose_y = 2, pose_theta = pi \<rparr>)"
proof -
  let ?S = "robot [wheel 0 (2 * pi)] [wheel 0 pi] [readyImu 1 pi]"
  let ?S1 = "robot [wheel 0 (2 * pi)] [wheel 0 pi] [readyImu 1 0]"
  have res: "resolveTheta imu ?S = Inr (Some (pi, ?S1))"
    by (simp add: resolveTheta_def calcDeltaTheta_gyros_def sim_defs wheel_defs)
  have d: "pi = pi - pose_theta (pose ?S)" by (simp add: sim_defs)
  have s: "(2::real) = (if pi = 0 then 1 else 2 * sin (pi / 2))" by simp
  have h0: "trackerLoop pi 2 1 [wheel 0 pi] 0 = Some (2, [consumed (wheel 0 pi)])"
    by (simp add: sim_defs wheel_defs)
  have v0: "trackerLoop pi 2 1 [wheel 0 (2 * pi)] 0 = Some (4, [consumed (wheel 0 (2 * pi))])"
    by (simp add: sim_defs wheel_defs)
  have h: "trackerLoop pi 2 (length (horizontals ?S1)) (horizontals ?S1) 0
             = Some (2, [consumed (wheel 0 pi)])"
    using h0 by (simp add: robot_def)
  have v: "trackerLoop pi 2 (length (horizontals ?S1)) (verticals ?S1) 0
             = Some (4, [consumed (wheel 0 (2 * pi))])"
    using v0 by (simp add: robot_def)
  from update_rotates_by_midpoint_heading [OF res d s h v]
  obtain st' where u: "update imu ?S = Inr st'"
    and p: "pose st' = pose_add (pose ?S)
              (rotate \<lparr> pose_x = 2, pose_y = 4, pose_theta = pi \<rparr>
                 (pose_theta (pose ?S) + pi / 2))"
    by blast
  have "pose st' = \<lparr> pose_x = - 4, pose_y = 2, pose_theta = pi \<rparr>"
    unfolding p by (simp add: pose_add_def rotate_def robot_def origin_def)
  with u res h0 v0 show ?thesis by blast
qed

subsection \<open>Straight lines\<close>

text \<open>
  Claim C8: when every sensor reports the same distance \<open>d\<close> and the heading delta is
  0, the pose moves by exactly \<open>d\<close> on each axis along the heading and the heading
  stays. The source fails this whenever the two groups differ in size: with one
  horizontal and two vertical wheels that all moved by 1, at heading 0, the pose goes
  from (0, 0) to (1, 2), the vertical sum 1 + 1 being divided by the one horizontal
  wheel.
\<close>

theorem update_straight_line_unequal_groups:
  "update imu (robot [wheel 3 1, wheel (- 3) 1] [wheel 0 1] [readyImu 1 0]) =
     Inr (robot [consumed (wheel 3 1), consumed (wheel (- 3) 1)] [consumed (wheel 0 1)]
                [readyImu 1 0]
            \<lparr>pose := \<lparr> pose_x = 1, pose_y = 2, pose_theta = 0 \<rparr>\<rparr>)"
  by (simp add: update_def resolveTheta_def calcDeltaTheta_gyros_def pose_add_def rotate_def
        sim_defs wheel_defs)

subsection \<open>Divisors\<close>

text \<open>
  Claim C9: no division of the accumulation of the local displacement has a zero divisor,
  also for a gyro with vertical wheels and no horizontal wheel. The source divides the
  contribution of every vertical wheel by the number of horizontal wheels, which is 0
  for that robot.
\<close>

theorem update_divides_by_zero_without_horizontals:
  "update imu (robot [wheel 0 1] [] [readyImu 1 0]) = Inl DivisionByZero"
  by (simp add: update_def resolveTheta_def calcDeltaTheta_gyros_def sim_defs wheel_defs)

subsection \<open>The polling budget\<close>

text \<open>
  Claim C10: the polling loop ends with the timer of 3000 ms and never earlier, whatever
  the gyros report: for every implementation of the gyros and every state, the loop
  started on a fresh timer returns with the clock 3000 ms further, and so does every
  call of \<^verbatim>\<open>calibrate(true)\<close> that returns.
\<close>

theorem calibrate_polls_whole_budget:
  "millis (pollGyros G (newTimer 3000 st) st) = millis st + 3000
   \<and> (\<forall>st'. calibrate G True st = Inr st' \<longrightarrow> millis st' = millis st + 3000)"
proof (intro conjI allI impI)
  show "millis (pollGyros G (newTimer 3000 st) st) = millis st + 3000"
    by (rule pollGyros_budget)
next
  fix st' assume "calibrate G True st = Inr st'"
  then show "millis st' = millis st + 3000"
    by (auto simp: calibrate_def Let_def pollGyros_budget split: sum.splits prod.splits)
qed

text \<open>
  A sensor that is calibrated 10 ms after the start: the call still returns at 3000 ms.
\<close>

theorem calibrate_polls_whole_budget_witness:
  "calibrate imu True (robot [] [] [readyImu 1 0]) =
     Inr (robot [] [] [readyImu 1 0] \<lparr>millis := 3000\<rparr>)
   \<and> millis (robot [] [] [readyImu 1 0] \<lparr>millis := 3000\<rparr>)
       = millis (robot [] [] [readyImu 1 0]) + 3000"
proof -
  let ?S = "robot [] [] [readyImu 1 0\<lparr>imu_status := Calibrating 10\<rparr>]"
  let ?S1 = "robot [] [] [readyImu 1 0] \<lparr>millis := 10\<rparr>"
  have "pollGyros imu (newTimer 3000 ?S) ?S = pollGyros imu (newTimer 3000 ?S) ?S1"
    by (subst pollGyros.simps)
       (simp add: newTimer_def recalibrate_def isDone_def delay_def sim_defs)
  also have "\<dots> = ?S1\<lparr>millis := 3000\<rparr>"
    by (subst pollGyros_idle) (simp_all add: newTimer_def recalibrate_def sim_defs)
  finally have c: "calibrate imu True (robot [] [] [readyImu 1 0]) =
     Inr (robot [] [] [readyImu 1 0] \<lparr>millis := 3000\<rparr>)"
    by (simp add: calibrate_def Let_def newTimer_def eraseLoop.simps erase_def sim_defs)
  from calibrate_polls_whole_budget [of imu "robot [] [] [readyImu 1 0]"] c
  show ?thesis by simp
qed

end
